theory Spec2Isabelle
  imports Main
begin

section \<open>asconfig: the device scanner and the .asoundrc generator\<close>

text \<open>
  A shallow embedding of \<^verbatim>\<open>scancards\<close> and \<^verbatim>\<open>print_asoundrc\<close> of
  \<^verbatim>\<open>asconfig.c\<close>. The ALSA and GTK libraries are outside the program: what their calls
  return is data of the model (the error codes of the ALSA calls, the row selected in a
  tree view, the state of the controls, the answer of the dialog, the file at the
  destination path).
\<close>

subsection \<open>Configuration constants\<close>

definition ASCONFIG_DEFAULT_RATE :: nat where
  "ASCONFIG_DEFAULT_RATE = 48000"

definition ASCONFIG_DEFAULT_FORMAT_NAME :: string where
  "ASCONFIG_DEFAULT_FORMAT_NAME = ''S16_LE''"

definition ASCONFIG_DEFAULT_CHANNELS :: nat where
  "ASCONFIG_DEFAULT_CHANNELS = 2"

definition ASCONFIG_STREAM_INPUT_FORMAT :: string where
  "ASCONFIG_STREAM_INPUT_FORMAT = ''raw''"

definition ASCONFIG_STREAM_COMMAND :: string where
  "ASCONFIG_STREAM_COMMAND =
     ''| lame -r --bitwidth %b -s %r -m j -q6 --cbr -b 192 - - | /usr/local/bin/ezstream -c /path/to/config''"

text \<open>The table \<^verbatim>\<open>resamplers[]\<close>; its fourth entry is the terminating NULL.\<close>

definition resamplers :: "string list" where
  "resamplers = [''speexrate'', ''speexrate_medium'', ''speexrate_best'']"

text \<open>Values of the system headers: \<^verbatim>\<open>EBUSY\<close> of errno.h, the response ids of gtk/gtkdialog.h.\<close>

definition EBUSY :: int where
  "EBUSY = 16"

definition GTK_RESPONSE_DELETE_EVENT :: int where
  "GTK_RESPONSE_DELETE_EVENT = - 4"

definition GTK_RESPONSE_YES :: int where
  "GTK_RESPONSE_YES = - 8"

definition GTK_RESPONSE_NO :: int where
  "GTK_RESPONSE_NO = - 9"

subsection \<open>Text produced by the printf family\<close>

definition dq :: string where
  "dq = [CHR 0x22]"

definition sq :: string where
  "sq = [CHR 0x27]"

text \<open>Every line the program prints ends in a newline.\<close>

definition text_lines :: "string list \<Rightarrow> string" where
  "text_lines ls = concat (map (\<lambda>l. l @ [CHR 0x0A]) ls)"

definition digit_char :: "nat \<Rightarrow> char" where
  "digit_char d = ''0123456789'' ! d"

text \<open>The conversion \<^verbatim>\<open>%u\<close> (and \<^verbatim>\<open>%d\<close> on a value that is not negative).\<close>

function show_nat :: "nat \<Rightarrow> string" where
  "show_nat n = (if n < 10 then [digit_char n] else show_nat (n div 10) @ [digit_char (n mod 10)])"
  by pat_completeness auto
termination
  by (relation "measure id") auto

declare show_nat.simps [simp del]

text \<open>\<^verbatim>\<open>g_strjoinv\<close>.\<close>

fun g_strjoinv :: "string \<Rightarrow> string list \<Rightarrow> string" where
  "g_strjoinv sep [] = []"
| "g_strjoinv sep [x] = x"
| "g_strjoinv sep (x # y # ys) = x @ sep @ g_strjoinv sep (y # ys)"

subsection \<open>The device catalogue\<close>

text \<open>
  One row of the list store, a field per column of the enumeration that starts at
  \<^verbatim>\<open>COLUMN_IN_USE\<close>. A string column that was never set reads as NULL (\<open>None\<close>), an
  unsigned column that was never set reads as 0.
\<close>

record row =
  in_use :: "string option"
  card :: nat
  card_id :: "string option"
  card_name :: "string option"
  device :: nat
  device_id :: "string option"
  device_name :: "string option"
  device_min_channels :: nat
  device_max_channels :: nat
  device_min_rate :: nat
  device_max_rate :: nat
  device_format :: "string option"
  device_alsa_hw :: "string option"
  default_rate :: nat
  default_format :: "string option"
  default_channels :: nat

text \<open>
  What ALSA answers for one opened PCM device: the ranges of its configuration space, the
  names of the formats in its mask in the order \<^verbatim>\<open>getSampleFormats\<close> collects them, and
  the outcome of the three negotiation calls. \<^verbatim>\<open>snd_pcm_hw_params_set_rate_near\<close> gets the
  wanted rate through a pointer and writes the rate it chose back through it: its answer
  is the error code and the rate left in the variable.
\<close>

record pcm_params =
  channels_min :: nat
  channels_max :: nat
  rate_min :: nat
  rate_max :: nat
  sample_formats :: "string list"
  set_rate_near :: "nat \<Rightarrow> int \<times> nat"
  set_format :: "string \<Rightarrow> int"
  set_channels :: "nat \<Rightarrow> int"

record pcm_device =
  dev :: nat
  pcm_info_err :: int
  pcm_id :: string
  pcm_name :: string
  pcm_open_err :: int
  hw_params_any_err :: int
  pars :: pcm_params

record sound_card =
  card_index :: nat
  ctl_open_err :: int
  ctl_card_info_err :: int
  ID :: string
  name :: string
  pcm_devices :: "pcm_device list"

text \<open>
  \<^verbatim>\<open>snprintf(defaultFormat, 64, "%s", sample_formats[0])\<close>: with an empty mask the
  argument is the NULL that ends the array, which the C library prints as \<^verbatim>\<open>(null)\<close>.
\<close>

definition first_format :: "string list \<Rightarrow> string" where
  "first_format fs = (case fs of [] \<Rightarrow> ''(null)'' | f # _ \<Rightarrow> f)"

text \<open>The three negotiation steps of \<^verbatim>\<open>scancards\<close>, one after the other.\<close>

definition negotiate_rate :: "pcm_params \<Rightarrow> nat" where
  "negotiate_rate p =
     (let (err, defaultRate) = set_rate_near p ASCONFIG_DEFAULT_RATE
      in if err \<noteq> 0 then rate_min p else defaultRate)"

definition negotiate_format :: "pcm_params \<Rightarrow> string" where
  "negotiate_format p =
     (if set_format p ASCONFIG_DEFAULT_FORMAT_NAME = 0 then ASCONFIG_DEFAULT_FORMAT_NAME
      else first_format (sample_formats p))"

definition negotiate_channels :: "pcm_params \<Rightarrow> nat" where
  "negotiate_channels p =
     (if set_channels p ASCONFIG_DEFAULT_CHANNELS = 0 then ASCONFIG_DEFAULT_CHANNELS
      else channels_min p)"

definition hwdev :: "nat \<Rightarrow> nat \<Rightarrow> string" where
  "hwdev c d = ''hw:'' @ show_nat c @ '','' @ show_nat d"

text \<open>The row inserted for a device before it is opened.\<close>

definition inserted_row :: "sound_card \<Rightarrow> pcm_device \<Rightarrow> row" where
  "inserted_row c d =
     \<lparr> in_use = None, card = card_index c, card_id = Some (ID c), card_name = Some (name c),
       device = dev d, device_id = Some (pcm_id d), device_name = Some (pcm_name d),
       device_min_channels = 0, device_max_channels = 0,
       device_min_rate = 0, device_max_rate = 0,
       device_format = None, device_alsa_hw = Some (hwdev (card_index c) (dev d)),
       default_rate = 0, default_format = None, default_channels = 0 \<rparr>"

text \<open>The body of the inner loop of \<^verbatim>\<open>scancards\<close>: the rows one device adds (none or one).\<close>

definition scan_device :: "sound_card \<Rightarrow> pcm_device \<Rightarrow> row list" where
  "scan_device c d =
     (if pcm_info_err d \<noteq> 0 then []
      else if pcm_open_err d \<noteq> 0 then
        (if pcm_open_err d = - EBUSY then [(inserted_row c d)\<lparr>in_use := Some ''*''\<rparr>]
         else [(inserted_row c d)\<lparr>in_use := Some ''E''\<rparr>])
      else if hw_params_any_err d = 0 then
        [(inserted_row c d)\<lparr>
           in_use := None,
           device_min_channels := channels_min (pars d),
           device_max_channels := channels_max (pars d),
           device_min_rate := rate_min (pars d),
           device_max_rate := rate_max (pars d),
           device_format := Some (g_strjoinv '', '' (sample_formats (pars d))),
           default_rate := negotiate_rate (pars d),
           default_format := Some (negotiate_format (pars d)),
           default_channels := negotiate_channels (pars d)\<rparr>]
      else [(inserted_row c d)\<lparr>in_use := Some ''E''\<rparr>])"

definition scan_card :: "sound_card \<Rightarrow> row list" where
  "scan_card c =
     (if ctl_open_err c \<noteq> 0 then []
      else if ctl_card_info_err c \<noteq> 0 then []
      else concat (map (scan_device c) (pcm_devices c)))"

definition scancards :: "sound_card list \<Rightarrow> row list" where
  "scancards cards = concat (map scan_card cards)"



subsection \<open>The text of the artifact\<close>

text \<open>
  Each \<^verbatim>\<open>fprintf\<close> to the destination file is one item, with the arguments of the call;
  \<open>render\<close> is the format string of that call with the arguments filled in. The file
  holds the items in the order the calls are made.
\<close>

datatype item =
    Header
  | Hw_pcm string string nat nat
  | Remark "string list"
  | Forced string string nat nat
  | Rate_converter string
  | Ctl_default nat
  | Stream_note string
  | Softvol string string
  | File_pcm string string string string
  | Plug string string
  | Dmix string string string nat nat
  | Dsnoop string string string nat nat
  | Default_alias string
  | Default_asym string string

fun render :: "item \<Rightarrow> string" where
  "render Header = text_lines [''# User asoundrc file written by asconfig'']"
| "render (Hw_pcm what pcmName c d) = text_lines
     [''# Selected '' @ what @ '' device'',
      ''pcm.!'' @ pcmName @ '' {'',
      ''   type hw'',
      ''   card '' @ show_nat c,
      ''   device '' @ show_nat d,
      ''}'']"
| "render (Remark ls) = text_lines ls"
| "render (Forced pcmName defaultFormat defaultChannels defaultRate) = text_lines
     [''# Force parameters for playback on single rate cards'',
      ''# Required for some cards, e.g bytcrrt5640'',
      ''pcm.+'' @ pcmName @ '' {'',
      ''   format '' @ defaultFormat,
      ''   channels '' @ show_nat defaultChannels,
      ''   rate '' @ show_nat defaultRate,
      ''}'']"
| "render (Rate_converter r) = text_lines
     [''# Default rate converter for plug and dmix'',
      ''# Make sure package alsa-plugins is installed to use'',
      ''# higher quality speexrate_medium resampling.'',
      ''defaults.pcm.rate_converter '' @ dq @ r @ dq]"
| "render (Ctl_default c) = text_lines
     [''# Selected card mixer controls'',
      ''ctl.!default {'',
      ''   type hw'',
      ''   card '' @ show_nat c,
      ''}'']"
| "render (Stream_note streamPCM) = text_lines
     [''# NOTE: dmix can only output to a hardware device.'',
      ''# To use the stream pcm, the program whose output '',
      ''# is to be streamed must be told to use the '' @ streamPCM @ '' pcm'',
      ''# e.g.'',
      ''#    mplayer -ao alsa:device='' @ streamPCM,
      ''#    chromium --alsa-output-device='' @ sq @ streamPCM @ sq,
      ''#    AUDIODEV='' @ streamPCM @ '' ffplay'']"
| "render (Softvol pcmName dmixPCM) = text_lines
     [''# Local volume control for stream input to dmix.'',
      ''pcm.!'' @ pcmName @ '' {'',
      ''   type softvol'',
      ''   slave {'',
      ''      pcm '' @ dmixPCM,
      ''   }'',
      ''   control {'',
      ''      name Stream'',
      ''      card 0'',
      ''   }'',
      ''}'']"
| "render (File_pcm pcmName streamFormat streamSlavePCM streamCommand) = text_lines
     [''# Stream output.'',
      ''pcm.!'' @ pcmName @ '' {'',
      ''   type file'',
      ''   format '' @ dq @ streamFormat @ dq,
      ''   slave {'',
      ''      pcm '' @ streamSlavePCM,
      ''   }'',
      ''   file '' @ dq @ streamCommand @ dq,
      ''}'']"
| "render (Plug pcmName slavePCM) = text_lines
     [''# Convert formats (bit depth) and sample rates.'',
      ''pcm.!'' @ pcmName @ '' {'',
      ''   type plug'',
      ''   slave {'',
      ''      pcm '' @ slavePCM,
      ''   }'',
      ''}'']"
| "render (Dmix pcmName slavePCM defaultFormat defaultChannels defaultRate) = text_lines
     [''# Mix streams from several sources.'',
      ''pcm.!'' @ pcmName @ '' {'',
      ''   type dmix'',
      ''   ipc_key 16022021'',
      ''   ipc_key_add_uid yes'',
      ''   slave {'',
      ''      pcm '' @ slavePCM,
      ''      format '' @ defaultFormat,
      ''      channels '' @ show_nat defaultChannels,
      ''      rate '' @ show_nat defaultRate,
      ''   }'',
      ''}'']"
| "render (Dsnoop pcmName slavePCM defaultFormat defaultChannels defaultRate) = text_lines
     [''# Allow capture by multiple applications.'',
      ''pcm.!'' @ pcmName @ '' {'',
      ''   type dsnoop'',
      ''   ipc_key 17022021'',
      ''   ipc_key_add_uid yes'',
      ''   slave {'',
      ''      pcm '' @ dq @ slavePCM @ dq,
      ''      period_size 1024'',
      ''      buffer_size 4096'',
      ''      format '' @ defaultFormat,
      ''      rate '' @ show_nat defaultRate,
      ''      channels '' @ show_nat defaultChannels,
      ''      periods 0'',
      ''      period_time 0'',
      ''   }'',
      ''   bindings {'',
      ''      0 0'',
      ''      1 1'',
      ''   }'',
      ''}'']"
| "render (Default_alias playbackPCM) = text_lines
     [''pcm.!default pcm.'' @ playbackPCM]"
| "render (Default_asym playbackPCM capturePCM) = text_lines
     [''pcm.!default {'',
      ''   type asym'',
      ''   playback.pcm '' @ dq @ playbackPCM @ dq,
      ''   capture.pcm '' @ dq @ capturePCM @ dq,
      ''}'']"

definition render_all :: "item list \<Rightarrow> string" where
  "render_all its = concat (map render its)"

subsection \<open>The functions that add one stage\<close>

definition add_dsnoop :: "string \<Rightarrow> string \<Rightarrow> string \<Rightarrow> nat \<Rightarrow> nat \<Rightarrow> item list" where
  "add_dsnoop pcmName slavePCM defaultFormat defaultChannels defaultRate =
     [Dsnoop pcmName slavePCM defaultFormat defaultChannels defaultRate]"

definition add_dmixStream :: "string \<Rightarrow> string \<Rightarrow> string \<Rightarrow> item list" where
  "add_dmixStream pcmName dmixPCM streamPCM = [Stream_note streamPCM, Softvol pcmName dmixPCM]"

definition add_streamOut :: "string \<Rightarrow> string \<Rightarrow> string \<Rightarrow> string \<Rightarrow> item list" where
  "add_streamOut pcmName streamFormat streamSlavePCM streamCommand =
     [File_pcm pcmName streamFormat streamSlavePCM streamCommand]"

definition add_plug :: "string \<Rightarrow> string \<Rightarrow> item list" where
  "add_plug pcmName slavePCM = [Plug pcmName slavePCM]"

definition add_dmix :: "string \<Rightarrow> string \<Rightarrow> string \<Rightarrow> nat \<Rightarrow> nat \<Rightarrow> item list" where
  "add_dmix pcmName slavePCM defaultFormat defaultChannels defaultRate =
     [Dmix pcmName slavePCM defaultFormat defaultChannels defaultRate]"

definition add_default :: "string \<Rightarrow> string option \<Rightarrow> item list" where
  "add_default playbackPCM capturePCM =
     (case capturePCM of
        None \<Rightarrow> [Default_alias playbackPCM]
      | Some c \<Rightarrow> [Default_asym playbackPCM c])"

subsection \<open>The generator\<close>

text \<open>
  The state of the five controls when the artifact is generated: the active index of each
  combo box (\<open>- 1\<close> when no entry is active), the switch and the check button.
\<close>

record controls =
  resampler :: int
  playbackInterface :: int
  captureInterface :: int
  streamSwitch :: bool
  streamDefault :: bool

text \<open>
  The world around one run: the content of the file at the destination path when there is
  one, whether \<^verbatim>\<open>fopen\<close> succeeds, and the response id \<^verbatim>\<open>gtk_dialog_run\<close> returns when
  the overwrite dialog is shown.
\<close>

record environment =
  asoundrc_file :: "string option"
  fopen_ok :: bool
  dialog_response :: int

text \<open>
  How a run ends: one of the three message boxes, a declined overwrite, or the file
  written and closed, with the warnings logged on the way.
\<close>

datatype outcome =
    No_playback_selected
  | Playback_in_use
  | Overwrite_declined
  | Open_error
  | Written "string list"

text \<open>
  A run returns with an outcome and the file as it is then. \<^verbatim>\<open>resamplers[resampler]\<close> with
  an index outside the table is undefined in C; the model says so and nothing more.
\<close>

datatype result =
    Returned outcome "string option"
  | Undefined_behaviour

definition show_actionbox :: "environment \<Rightarrow> int" where
  "show_actionbox e = dialog_response e"

definition resampler_name :: "int \<Rightarrow> string option" where
  "resampler_name i =
     (if 0 \<le> i \<and> i < int (length resamplers) then Some (resamplers ! nat i) else None)"

text \<open>The fall back to the hard coded defaults for a column that is 0 or NULL.\<close>

definition rate_or_default :: "row \<Rightarrow> nat" where
  "rate_or_default r = (if default_rate r = 0 then ASCONFIG_DEFAULT_RATE else default_rate r)"

definition format_or_default :: "row \<Rightarrow> string" where
  "format_or_default r =
     (case default_format r of None \<Rightarrow> ASCONFIG_DEFAULT_FORMAT_NAME | Some f \<Rightarrow> f)"

definition channels_or_default :: "row \<Rightarrow> nat" where
  "channels_or_default r =
     (if default_channels r = 0 then ASCONFIG_DEFAULT_CHANNELS else default_channels r)"

text \<open>The comment printed at the head of each case of the two switches.\<close>

definition capture_hw_note :: item where
  "capture_hw_note = Remark
     [''# Direct hardware access selected - no software conversions.'',
      ''# Only one application can use the capture device at a time.'',
      ''# Capture sample rates / formats / channels *MUST* match'',
      ''# the cards native ranges, otherwise capturing will fail.'']"

definition capture_plug_note :: item where
  "capture_plug_note = Remark
     [''# Access hardware via plug: The capture format (bit depth)'',
      ''# may be changed and / or resampling may take place in order'',
      ''# to match the hardware requirements. Only one application '',
      ''# can use the capture device at a time.'']"

definition capture_dsnoop_note :: item where
  "capture_dsnoop_note = Remark
     [''# Allow multiple applications to capture at once. Output'',
      ''# streams may be converted to a common format (bit depth)'',
      ''# and sample rate using plug (dsnoop doesn'' @ sq @ ''t do conversions).'']"

definition playback_hw_note :: item where
  "playback_hw_note = Remark
     [''# Direct hardware access selected - no software conversions.'',
      ''# Only one application can use the playback device at a time.'',
      ''# Playback sample rates / formats / channels *MUST* match'',
      ''# the cards native ranges, otherwise playback will fail.'']"

definition playback_plug_note :: item where
  "playback_plug_note = Remark
     [''# Access hardware via plug: The playback format (bit depth)'',
      ''# may be changed and / or resampling may take place in order'',
      ''# to match the hardware requirements. Only one application '',
      ''# can use the playback device at a time.'']"

definition playback_dmix_note :: item where
  "playback_dmix_note = Remark
     [''# Allow playback from multiple applications at once. Input'',
      ''# streams may be converted to a common format (bit depth)'',
      ''# and sample rate using plug (dmix doesn'' @ sq @ ''t do conversions).'']"

text \<open>
  The switch on \<^verbatim>\<open>captureInterfaceType\<close>: the items it prints and the value of
  \<^verbatim>\<open>defaultCapturePCM\<close> after it.
\<close>

definition capture_switch ::
  "int \<Rightarrow> string \<Rightarrow> string \<Rightarrow> nat \<Rightarrow> nat \<Rightarrow> item list \<times> string" where
  "capture_switch captureInterfaceType defaultCapturePCM captureFormat captureChannels captureRate =
     (if captureInterfaceType = 0 then
        ([capture_hw_note], defaultCapturePCM)
      else if captureInterfaceType = 1 then
        ([capture_plug_note] @ add_plug ''matchCapture'' defaultCapturePCM, ''matchCapture'')
      else if captureInterfaceType = 2 then
        ([capture_dsnoop_note]
         @ add_plug ''matchCapture'' ''snoopCapture''
         @ add_dsnoop ''snoopCapture'' defaultCapturePCM captureFormat captureChannels captureRate,
         ''matchCapture'')
      else ([], defaultCapturePCM))"

text \<open>
  The capture side. Without a selected capture row \<^verbatim>\<open>captureInterfaceType\<close> stays \<open>- 1\<close>
  and \<^verbatim>\<open>defaultCapturePCM\<close> stays NULL, so the switch prints nothing.
\<close>

definition capture_part :: "row option \<Rightarrow> controls \<Rightarrow> item list \<times> string option" where
  "capture_part captureSelection ctl =
     (case captureSelection of
        None \<Rightarrow> ([], None)
      | Some c \<Rightarrow>
          (let (its, pcm) = capture_switch (captureInterface ctl) ''capture''
                              (format_or_default c) (channels_or_default c) (rate_or_default c)
           in (Hw_pcm ''capture'' ''capture'' (card c) (device c) # its, Some pcm)))"

text \<open>The common setup, between the two switches.\<close>

definition common_setup :: "row \<Rightarrow> string \<Rightarrow> string \<Rightarrow> item list" where
  "common_setup r defaultPlaybackPCM resamplerName =
     [Hw_pcm ''playback'' defaultPlaybackPCM (card r) (device r)]
     @ (if device_min_rate r > 0 \<and> device_min_rate r = device_max_rate r then
          [Forced defaultPlaybackPCM (format_or_default r) (channels_or_default r) (rate_or_default r)]
        else [])
     @ [Rate_converter resamplerName, Ctl_default (card r)]"

text \<open>
  The stream tap of the hw and plug cases: the items and \<^verbatim>\<open>defaultPlaybackPCM\<close> after it.
\<close>

definition stream_tap :: "bool \<Rightarrow> bool \<Rightarrow> string \<Rightarrow> item list \<times> string" where
  "stream_tap streamSwitchState streamDefault' defaultPlaybackPCM =
     (if streamSwitchState then
        (if streamDefault' then
           (add_streamOut ''stream'' ASCONFIG_STREAM_INPUT_FORMAT defaultPlaybackPCM
              ASCONFIG_STREAM_COMMAND, ''stream'')
         else
           (add_streamOut ''stream'' ASCONFIG_STREAM_INPUT_FORMAT ''null''
              ASCONFIG_STREAM_COMMAND, defaultPlaybackPCM))
      else ([], defaultPlaybackPCM))"

text \<open>The switch on \<^verbatim>\<open>playbackInterfaceType\<close>: the warnings it logs and the items it prints.\<close>

definition playback_switch ::
  "controls \<Rightarrow> string \<Rightarrow> string option \<Rightarrow> string \<Rightarrow> nat \<Rightarrow> nat \<Rightarrow> string list \<times> item list" where
  "playback_switch ctl defaultPlaybackPCM defaultCapturePCM defaultFormat defaultChannels defaultRate =
     (if playbackInterface ctl = 0 then
        (let (tap, pcm) = stream_tap (streamSwitch ctl) (streamDefault ctl) defaultPlaybackPCM
         in ([], [playback_hw_note] @ tap @ add_default pcm defaultCapturePCM))
      else if playbackInterface ctl = 1 then
        (let (tap, pcm) = stream_tap (streamSwitch ctl) (streamDefault ctl) defaultPlaybackPCM
         in ([],
             [playback_plug_note] @ tap @ add_plug ''match'' pcm
             @ add_default ''match'' defaultCapturePCM))
      else if playbackInterface ctl = 2 then
        ([],
         [playback_dmix_note]
         @ (if streamSwitch ctl then
              add_dmixStream ''streamvol'' ''mix'' ''stream''
              @ add_streamOut ''stream'' ASCONFIG_STREAM_INPUT_FORMAT ''streamvol''
                  ASCONFIG_STREAM_COMMAND
            else [])
         @ add_plug ''match'' ''mix''
         @ add_dmix ''mix'' defaultPlaybackPCM defaultFormat defaultChannels defaultRate
         @ add_default ''match'' defaultCapturePCM)
      else
        ([''print_asoundrc(): Unknown interface type''],
         add_default defaultPlaybackPCM defaultCapturePCM))"

text \<open>
  Everything printed between \<^verbatim>\<open>fopen\<close> and \<^verbatim>\<open>fclose\<close>, and the warnings logged;
  \<open>None\<close> when the resampler index is outside the table.
\<close>

definition asoundrc_items ::
  "row \<Rightarrow> row option \<Rightarrow> controls \<Rightarrow> (string list \<times> item list) option" where
  "asoundrc_items r captureSelection ctl =
     (let (capture_items, defaultCapturePCM) = capture_part captureSelection ctl
      in case resampler_name (resampler ctl) of
           None \<Rightarrow> None
         | Some resamplerName \<Rightarrow>
             (let (warnings, playback_items) =
                    playback_switch ctl ''playback'' defaultCapturePCM
                      (format_or_default r) (channels_or_default r) (rate_or_default r)
              in Some (warnings,
                       [Header] @ capture_items @ common_setup r ''playback'' resamplerName
                       @ playback_items)))"

text \<open>
  \<^verbatim>\<open>print_asoundrc\<close>: the selected playback row (if any), the selected capture row (if
  any), the controls and the environment give the way the run ends and the file after it.
\<close>

definition print_asoundrc ::
  "row option \<Rightarrow> row option \<Rightarrow> controls \<Rightarrow> environment \<Rightarrow> result" where
  "print_asoundrc playbackSelection captureSelection ctl e =
     (case playbackSelection of
        None \<Rightarrow> Returned No_playback_selected (asoundrc_file e)
      | Some r \<Rightarrow>
          if in_use r \<noteq> None then Returned Playback_in_use (asoundrc_file e)
          else if asoundrc_file e \<noteq> None \<and> show_actionbox e = GTK_RESPONSE_NO
            then Returned Overwrite_declined (asoundrc_file e)
          else if \<not> fopen_ok e then Returned Open_error (asoundrc_file e)
          else (case asoundrc_items r captureSelection ctl of
                  None \<Rightarrow> Undefined_behaviour
                | Some (warnings, its) \<Rightarrow> Returned (Written warnings) (Some (render_all its))))"

subsection \<open>Reading the artifact: stages, slaves, the default selector\<close>

text \<open>The name of the stage a block \<^verbatim>\<open>pcm.!NAME { type ... }\<close> declares.\<close>

fun stage_name :: "item \<Rightarrow> string option" where
  "stage_name (Hw_pcm what pcmName c d) = Some pcmName"
| "stage_name (Softvol pcmName dmixPCM) = Some pcmName"
| "stage_name (File_pcm pcmName streamFormat streamSlavePCM streamCommand) = Some pcmName"
| "stage_name (Plug pcmName slavePCM) = Some pcmName"
| "stage_name (Dmix pcmName slavePCM f ch rt) = Some pcmName"
| "stage_name (Dsnoop pcmName slavePCM f ch rt) = Some pcmName"
| "stage_name other = None"

text \<open>The stage named in the \<^verbatim>\<open>slave { pcm ... }\<close> field of a block.\<close>

fun slave_ref :: "item \<Rightarrow> string option" where
  "slave_ref (Softvol pcmName dmixPCM) = Some dmixPCM"
| "slave_ref (File_pcm pcmName streamFormat streamSlavePCM streamCommand) = Some streamSlavePCM"
| "slave_ref (Plug pcmName slavePCM) = Some slavePCM"
| "slave_ref (Dmix pcmName slavePCM f ch rt) = Some slavePCM"
| "slave_ref (Dsnoop pcmName slavePCM f ch rt) = Some slavePCM"
| "slave_ref other = None"

text \<open>The playback reference of a \<^verbatim>\<open>pcm.!default\<close> block.\<close>

fun default_playback :: "item \<Rightarrow> string option" where
  "default_playback (Default_alias playbackPCM) = Some playbackPCM"
| "default_playback (Default_asym playbackPCM capturePCM) = Some playbackPCM"
| "default_playback other = None"

text \<open>The format, channels and rate a \<^verbatim>\<open>pcm.+NAME\<close> block pins on the stage NAME.\<close>

fun forced_params :: "item \<Rightarrow> (string \<times> string \<times> nat \<times> nat) option" where
  "forced_params (Forced pcmName f ch rt) = Some (pcmName, f, ch, rt)"
| "forced_params other = None"

definition defined_stages :: "item list \<Rightarrow> string list" where
  "defined_stages its = List.map_filter stage_name its"

text \<open>The playback references of the default selectors of an artifact, in order.\<close>

definition default_refs :: "item list \<Rightarrow> string list" where
  "default_refs its = List.map_filter default_playback its"

text \<open>The forced-parameter blocks of an artifact, in order.\<close>

definition forced_blocks :: "item list \<Rightarrow> (string \<times> string \<times> nat \<times> nat) list" where
  "forced_blocks its = List.map_filter forced_params its"

text \<open>The blocks of an artifact that declare a stage, in order and as they are.\<close>

definition stage_blocks :: "item list \<Rightarrow> item list" where
  "stage_blocks its = filter (\<lambda>x. stage_name x \<noteq> None) its"

text \<open>
  No slave names a stage that is declared only later: going through the blocks with the
  names declared so far, the slave of each block is among them or is not declared by any
  of the blocks that follow.
\<close>

fun slave_order_ok :: "string list \<Rightarrow> item list \<Rightarrow> bool" where
  "slave_order_ok seen [] = True"
| "slave_order_ok seen (x # xs) =
     ((case slave_ref x of
         None \<Rightarrow> True
       | Some s \<Rightarrow> s \<in> set seen \<or> s \<notin> set (defined_stages xs))
      \<and> slave_order_ok (case stage_name x of None \<Rightarrow> seen | Some n \<Rightarrow> n # seen) xs)"

text \<open>
  Every slave is declared somewhere in the artifact, before or after the block that
  names it, or is \<^verbatim>\<open>null\<close>, the sink ALSA provides.
\<close>

definition slaves_resolved :: "item list \<Rightarrow> bool" where
  "slaves_resolved its =
     list_all
       (\<lambda>x. case slave_ref x of
              None \<Rightarrow> True
            | Some s \<Rightarrow> s = ''null'' \<or> s \<in> set (defined_stages its)) its"

subsection \<open>Inputs of the scenarios\<close>

text \<open>
  The playback record of the scenarios: card 0, device 0, rates 44100 to 48000, formats
  S16_LE and S24_LE, two channels, free.
\<close>

definition scenario_row :: row where
  "scenario_row =
     \<lparr> in_use = None, card = 0, card_id = Some ''PCH'', card_name = Some ''HDA Intel PCH'',
       device = 0, device_id = Some ''ALC269 Analog'', device_name = Some ''ALC269 Analog'',
       device_min_channels = 2, device_max_channels = 2,
       device_min_rate = 44100, device_max_rate = 48000,
       device_format = Some ''S16_LE, S24_LE'', device_alsa_hw = Some ''hw:0,0'',
       default_rate = 48000, default_format = Some ''S16_LE'', default_channels = 2 \<rparr>"

text \<open>Direct playback, adapted capture, the middle resampler, no stream tap.\<close>

definition scenario_controls :: controls where
  "scenario_controls =
     \<lparr> resampler = 1, playbackInterface = 0, captureInterface = 1,
       streamSwitch = False, streamDefault = False \<rparr>"

text \<open>No file at the destination yet.\<close>

definition fresh_home :: environment where
  "fresh_home = \<lparr> asoundrc_file = None, fopen_ok = True, dialog_response = GTK_RESPONSE_YES \<rparr>"

text \<open>A file written by hand is at the destination; the dialog is answered as given.\<close>

definition prior_file :: "int \<Rightarrow> environment" where
  "prior_file response =
     \<lparr> asoundrc_file = Some ''# written by hand'', fopen_ok = True,
       dialog_response = response \<rparr>"

text \<open>
  A device with the one rate 44100 and the one format S32_LE: asked for a rate near 48000
  it settles on 44100, it refuses S16_LE and accepts two channels.
\<close>

definition single_rate_params :: pcm_params where
  "single_rate_params =
     \<lparr> channels_min = 2, channels_max = 2, rate_min = 44100, rate_max = 44100,
       sample_formats = [''S32_LE''],
       set_rate_near = (\<lambda>wanted. (0, 44100)),
       set_format = (\<lambda>f. if f = ''S32_LE'' then 0 else - 22),
       set_channels = (\<lambda>n. if n = 2 then 0 else - 22) \<rparr>"

definition single_rate_device :: pcm_device where
  "single_rate_device =
     \<lparr> dev = 0, pcm_info_err = 0, pcm_id = ''USB Audio'', pcm_name = ''USB Audio'',
       pcm_open_err = 0, hw_params_any_err = 0, pars = single_rate_params \<rparr>"

definition usb_card :: sound_card where
  "usb_card =
     \<lparr> card_index = 1, ctl_open_err = 0, ctl_card_info_err = 0, ID = ''DAC'',
       name = ''USB DAC'', pcm_devices = [single_rate_device] \<rparr>"


text \<open>
  A device with the rates 8000 to 44100 and the formats S24_LE and S32_LE: asked for a
  rate near 48000 it settles on 44100, the nearest it has; it refuses S16_LE and accepts
  one or two channels.
\<close>

definition ranged_params :: pcm_params where
  "ranged_params =
     \<lparr> channels_min = 1, channels_max = 2, rate_min = 8000, rate_max = 44100,
       sample_formats = [''S24_LE'', ''S32_LE''],
       set_rate_near =
         (\<lambda>wanted. (0, if wanted < 8000 then 8000 else if 44100 < wanted then 44100 else wanted)),
       set_format = (\<lambda>f. if f = ''S24_LE'' \<or> f = ''S32_LE'' then 0 else - 22),
       set_channels = (\<lambda>n. if 1 \<le> n \<and> n \<le> 2 then 0 else - 22) \<rparr>"

definition ranged_device :: pcm_device where
  "ranged_device =
     \<lparr> dev = 0, pcm_info_err = 0, pcm_id = ''Codec'', pcm_name = ''Codec'',
       pcm_open_err = 0, hw_params_any_err = 0, pars = ranged_params \<rparr>"

definition codec_card :: sound_card where
  "codec_card =
     \<lparr> card_index = 0, ctl_open_err = 0, ctl_card_info_err = 0, ID = ''Codec'',
       name = ''Codec board'', pcm_devices = [ranged_device] \<rparr>"


text \<open>The row the scanner adds for the device of that card when another process holds it.\<close>

definition busy_row :: row where
  "busy_row =
     \<lparr> in_use = Some ''*'', card = 1, card_id = Some ''DAC'', card_name = Some ''USB DAC'',
       device = 0, device_id = Some ''USB Audio'', device_name = Some ''USB Audio'',
       device_min_channels = 0, device_max_channels = 0,
       device_min_rate = 0, device_max_rate = 0,
       device_format = None, device_alsa_hw = Some ''hw:1,0'',
       default_rate = 0, default_format = None, default_channels = 0 \<rparr>"

section \<open>Properties\<close>

subsection \<open>Precondition failures\<close>

text \<open>
  C4. Without a selected playback record the run ends with the no-selection notice, and
  with a selected playback record whose availability flag is set it ends with the in-use
  error; in both cases it returns before the destination is tested or opened, so the file
  there, if any, is what it was, byte for byte, whatever the dialog would answer and
  whether or not the file could be opened.
\<close>

theorem C4_precondition_failure_leaves_file:
  "print_asoundrc None captureSelection ctl e = Returned No_playback_selected (asoundrc_file e)
   \<and> (in_use r \<noteq> None \<longrightarrow>
        print_asoundrc (Some r) captureSelection ctl e = Returned Playback_in_use (asoundrc_file e))"
  by (simp add: print_asoundrc_def)

theorem C4_precondition_failure_witness:
  "print_asoundrc None None scenario_controls (prior_file GTK_RESPONSE_YES)
     = Returned No_playback_selected (Some ''# written by hand'')
   \<and> in_use (scenario_row\<lparr>in_use := Some ''*''\<rparr>) \<noteq> None
   \<and> print_asoundrc (Some (scenario_row\<lparr>in_use := Some ''*''\<rparr>)) None scenario_controls
        (prior_file GTK_RESPONSE_YES)
     = Returned Playback_in_use (Some ''# written by hand'')"
  using C4_precondition_failure_leaves_file
    [of None scenario_controls "prior_file GTK_RESPONSE_YES" "scenario_row\<lparr>in_use := Some ''*''\<rparr>"]
  by (simp add: prior_file_def)

lemma scan_device_in_use:
  "x \<in> set (scan_device c d) \<Longrightarrow>
   in_use x = None \<or> in_use x = Some ''*'' \<or> in_use x = Some ''E''"
  by (auto simp: scan_device_def inserted_row_def split: if_splits)

lemma scancards_in_use:
  "x \<in> set (scancards cards) \<Longrightarrow>
   in_use x = None \<or> in_use x = Some ''*'' \<or> in_use x = Some ''E''"
  by (auto simp: scancards_def scan_card_def split: if_splits dest: scan_device_in_use)

text \<open>
  C9. The generator tests the availability column against NULL only. A selected playback
  record with any flag at all is refused with the in-use error and the file is left as it
  was; the flags the scanner sets are \<^verbatim>\<open>*\<close> (busy) and \<^verbatim>\<open>E\<close> (error), so a record
  of the catalogue marked with either is refused.
\<close>

theorem C9_any_flag_blocks:
  "(in_use r = Some flag \<longrightarrow>
      print_asoundrc (Some r) captureSelection ctl e = Returned Playback_in_use (asoundrc_file e))
   \<and> (r \<in> set (scancards cards) \<and> in_use r \<noteq> None \<longrightarrow>
      (in_use r = Some ''*'' \<or> in_use r = Some ''E'')
      \<and> print_asoundrc (Some r) captureSelection ctl e = Returned Playback_in_use (asoundrc_file e))"
  using scancards_in_use [of r cards] by (auto simp: print_asoundrc_def)

lemma busy_scan:
  "scancards [usb_card\<lparr>pcm_devices := [single_rate_device\<lparr>pcm_open_err := - EBUSY\<rparr>]\<rparr>]
     = [busy_row]"
  by (simp add: scancards_def scan_card_def scan_device_def usb_card_def single_rate_device_def
      inserted_row_def busy_row_def EBUSY_def hwdev_def show_nat.simps digit_char_def)

theorem C9_any_flag_witness:
  "in_use busy_row = Some ''*''
   \<and> busy_row \<in> set (scancards
         [usb_card\<lparr>pcm_devices := [single_rate_device\<lparr>pcm_open_err := - EBUSY\<rparr>]\<rparr>])
   \<and> in_use busy_row \<noteq> None
   \<and> print_asoundrc (Some busy_row) None scenario_controls (prior_file GTK_RESPONSE_YES)
       = Returned Playback_in_use (Some ''# written by hand'')"
  using C9_any_flag_blocks [of busy_row "''*''" None scenario_controls "prior_file GTK_RESPONSE_YES"
      "[usb_card\<lparr>pcm_devices := [single_rate_device\<lparr>pcm_open_err := - EBUSY\<rparr>]\<rparr>]"]
  by (simp add: busy_scan) (simp add: busy_row_def prior_file_def)

subsection \<open>The shape of a run that writes the file\<close>

lemma print_asoundrc_written:
  "print_asoundrc sel cap ctl e = Returned (Written w) f \<Longrightarrow>
   \<exists>r its. sel = Some r \<and> in_use r = None \<and> asoundrc_items r cap ctl = Some (w, its)
     \<and> f = Some (render_all its)"
  by (auto simp: print_asoundrc_def split: option.splits if_splits)

lemma print_asoundrc_run:
  "in_use r = None \<Longrightarrow> \<not> (asoundrc_file e \<noteq> None \<and> dialog_response e = GTK_RESPONSE_NO) \<Longrightarrow>
   fopen_ok e \<Longrightarrow> asoundrc_items r cap ctl = Some (w, its) \<Longrightarrow>
   print_asoundrc (Some r) cap ctl e = Returned (Written w) (Some (render_all its))"
  by (simp add: print_asoundrc_def show_actionbox_def)

lemma asoundrc_items_shape:
  "asoundrc_items r cap ctl = Some (w, its) \<Longrightarrow>
   \<exists>rn. resampler_name (resampler ctl) = Some rn
     \<and> w = fst (playback_switch ctl ''playback'' (snd (capture_part cap ctl))
                (format_or_default r) (channels_or_default r) (rate_or_default r))
     \<and> its = [Header] @ fst (capture_part cap ctl) @ common_setup r ''playback'' rn
           @ snd (playback_switch ctl ''playback'' (snd (capture_part cap ctl))
                (format_or_default r) (channels_or_default r) (rate_or_default r))"
  by (auto simp: asoundrc_items_def split: option.splits prod.splits)

lemma defined_stages_append [simp]:
  "defined_stages (xs @ ys) = defined_stages xs @ defined_stages ys"
  by (simp add: defined_stages_def List.map_filter_def)

lemma defined_stages_Cons:
  "defined_stages (x # xs) = (case stage_name x of None \<Rightarrow> [] | Some n \<Rightarrow> [n]) @ defined_stages xs"
  by (simp add: defined_stages_def List.map_filter_def split: option.splits)

lemma defined_stages_Nil [simp]: "defined_stages [] = []"
  by (simp add: defined_stages_def List.map_filter_def)

lemma default_refs_append [simp]: "default_refs (xs @ ys) = default_refs xs @ default_refs ys"
  by (simp add: default_refs_def List.map_filter_def)

lemma default_refs_Cons:
  "default_refs (x # xs) = (case default_playback x of None \<Rightarrow> [] | Some p \<Rightarrow> [p]) @ default_refs xs"
  by (simp add: default_refs_def List.map_filter_def split: option.splits)

lemma default_refs_Nil [simp]: "default_refs [] = []"
  by (simp add: default_refs_def List.map_filter_def)

lemma forced_blocks_append [simp]: "forced_blocks (xs @ ys) = forced_blocks xs @ forced_blocks ys"
  by (simp add: forced_blocks_def List.map_filter_def)


lemma forced_blocks_Nil [simp]: "forced_blocks [] = []"
  by (simp add: forced_blocks_def List.map_filter_def)

lemma stage_blocks_append [simp]: "stage_blocks (xs @ ys) = stage_blocks xs @ stage_blocks ys"
  by (simp add: stage_blocks_def)

lemma stage_blocks_Cons:
  "stage_blocks (x # xs) = (if stage_name x \<noteq> None then [x] else []) @ stage_blocks xs"
  by (simp add: stage_blocks_def)

lemma stage_blocks_Nil [simp]: "stage_blocks [] = []"
  by (simp add: stage_blocks_def)

lemmas note_defs =
  capture_hw_note_def capture_plug_note_def capture_dsnoop_note_def
  playback_hw_note_def playback_plug_note_def playback_dmix_note_def

lemmas capture_defs =
  capture_part_def capture_switch_def add_plug_def add_dsnoop_def note_defs

lemmas playback_defs =
  playback_switch_def stream_tap_def add_plug_def add_dmix_def add_dmixStream_def
  add_streamOut_def add_default_def note_defs

subsection \<open>The runs of the scenarios\<close>

lemmas default_defs =
  format_or_default_def channels_or_default_def rate_or_default_def
  ASCONFIG_DEFAULT_RATE_def ASCONFIG_DEFAULT_FORMAT_NAME_def ASCONFIG_DEFAULT_CHANNELS_def
  ASCONFIG_STREAM_INPUT_FORMAT_def

lemmas run_defs =
  asoundrc_items_def capture_part_def capture_switch_def common_setup_def playback_switch_def
  stream_tap_def add_plug_def add_dsnoop_def add_dmix_def add_dmixStream_def add_streamOut_def
  add_default_def resampler_name_def resamplers_def default_defs

lemma scenario_free: "in_use scenario_row = None"
  by (simp add: scenario_row_def)

lemma fresh_home_opens:
  "\<not> (asoundrc_file fresh_home \<noteq> None \<and> dialog_response fresh_home = GTK_RESPONSE_NO)"
  "fopen_ok fresh_home"
  by (simp_all add: fresh_home_def)

lemma scenario_direct_items:
  "asoundrc_items scenario_row None scenario_controls =
     Some ([], [Header, Hw_pcm ''playback'' ''playback'' 0 0, Rate_converter ''speexrate_medium'',
                Ctl_default 0, playback_hw_note, Default_alias ''playback''])"
  by (simp add: run_defs scenario_row_def scenario_controls_def)

lemma scenario_direct_run:
  "print_asoundrc (Some scenario_row) None scenario_controls fresh_home
     = Returned (Written [])
         (Some (render_all
            [Header, Hw_pcm ''playback'' ''playback'' 0 0, Rate_converter ''speexrate_medium'',
             Ctl_default 0, playback_hw_note, Default_alias ''playback'']))"
  by (rule print_asoundrc_run [OF scenario_free fresh_home_opens scenario_direct_items])

lemma scenario_dmix_items:
  "asoundrc_items scenario_row None (scenario_controls\<lparr>playbackInterface := 2\<rparr>) =
     Some ([], [Header, Hw_pcm ''playback'' ''playback'' 0 0, Rate_converter ''speexrate_medium'',
                Ctl_default 0, playback_dmix_note,
                Plug ''match'' ''mix'', Dmix ''mix'' ''playback'' ''S16_LE'' 2 48000,
                Default_alias ''match''])"
  by (simp add: run_defs scenario_row_def scenario_controls_def)

lemma scenario_dmix_tap_items:
  "asoundrc_items scenario_row None
     (scenario_controls\<lparr>playbackInterface := 2, streamSwitch := True, streamDefault := True\<rparr>) =
     Some ([], [Header, Hw_pcm ''playback'' ''playback'' 0 0, Rate_converter ''speexrate_medium'',
                Ctl_default 0, playback_dmix_note, Stream_note ''stream'',
                Softvol ''streamvol'' ''mix'',
                File_pcm ''stream'' ''raw'' ''streamvol'' ASCONFIG_STREAM_COMMAND,
                Plug ''match'' ''mix'', Dmix ''mix'' ''playback'' ''S16_LE'' 2 48000,
                Default_alias ''match''])"
  by (simp add: run_defs scenario_row_def scenario_controls_def)

lemma scenario_dmix_tap_other_items:
  "asoundrc_items scenario_row None
     (scenario_controls\<lparr>playbackInterface := 2, streamSwitch := True, streamDefault := False\<rparr>) =
     Some ([], [Header, Hw_pcm ''playback'' ''playback'' 0 0, Rate_converter ''speexrate_medium'',
                Ctl_default 0, playback_dmix_note, Stream_note ''stream'',
                Softvol ''streamvol'' ''mix'',
                File_pcm ''stream'' ''raw'' ''streamvol'' ASCONFIG_STREAM_COMMAND,
                Plug ''match'' ''mix'', Dmix ''mix'' ''playback'' ''S16_LE'' 2 48000,
                Default_alias ''match''])"
  by (simp add: run_defs scenario_row_def scenario_controls_def)






subsection \<open>Slave references\<close>

lemma slaves_resolved_iff:
  "slaves_resolved its \<longleftrightarrow>
     (\<forall>x\<in>set its. \<forall>s. slave_ref x = Some s \<longrightarrow> s = ''null'' \<or> s \<in> set (defined_stages its))"
  by (auto simp: slaves_resolved_def list_all_iff split: option.splits)

lemma slave_order_ok_mono:
  "slave_order_ok seen xs \<Longrightarrow> set seen \<subseteq> set seen' \<Longrightarrow> slave_order_ok seen' xs"
proof (induction xs arbitrary: seen seen')
  case Nil
  then show ?case by simp
next
  case (Cons x xs)
  let ?nx = "\<lambda>sn. case stage_name x of None \<Rightarrow> sn | Some n \<Rightarrow> n # sn"
  have sub: "set (?nx seen) \<subseteq> set (?nx seen')"
    using Cons.prems(2) by (cases "stage_name x") auto
  have "slave_order_ok (?nx seen) xs"
    using Cons.prems(1) by simp
  then have rest: "slave_order_ok (?nx seen') xs"
    using sub by (rule Cons.IH)
  have here: "case slave_ref x of None \<Rightarrow> True
              | Some s \<Rightarrow> s \<in> set seen' \<or> s \<notin> set (defined_stages xs)"
  proof (cases "slave_ref x")
    case None
    then show ?thesis by simp
  next
    case (Some s)
    then have "s \<in> set seen \<or> s \<notin> set (defined_stages xs)"
      using Cons.prems(1) by simp
    then show ?thesis using Some Cons.prems(2) by auto
  qed
  show ?case using here rest by simp
qed

lemma slave_order_ok_append:
  "slave_order_ok seen xs \<Longrightarrow> slave_order_ok seen ys \<Longrightarrow>
   (\<forall>x\<in>set xs. \<forall>s. slave_ref x = Some s \<longrightarrow> s \<notin> set (defined_stages ys)) \<Longrightarrow>
   slave_order_ok seen (xs @ ys)"
proof (induction xs arbitrary: seen)
  case Nil
  then show ?case by simp
next
  case (Cons x xs)
  let ?seen = "case stage_name x of None \<Rightarrow> seen | Some n \<Rightarrow> n # seen"
  have tl_ok: "slave_order_ok ?seen xs"
    using Cons.prems(1) by simp
  have "slave_order_ok ?seen ys"
    using Cons.prems(2) by (rule slave_order_ok_mono) (cases "stage_name x", auto)
  then have rest: "slave_order_ok ?seen (xs @ ys)"
    using tl_ok Cons.prems(3) by (intro Cons.IH) simp_all
  have here: "case slave_ref x of None \<Rightarrow> True
              | Some s \<Rightarrow> s \<in> set seen \<or> s \<notin> set (defined_stages (xs @ ys))"
  proof (cases "slave_ref x")
    case None
    then show ?thesis by simp
  next
    case (Some s)
    have "s \<in> set seen \<or> s \<notin> set (defined_stages xs)"
      using Cons.prems(1) Some by simp
    moreover have "s \<notin> set (defined_stages ys)"
      using Cons.prems(3) Some by simp
    ultimately show ?thesis using Some by auto
  qed
  show ?case using here rest by simp
qed

lemma capture_slaves:
  "x \<in> set (fst (capture_part cap ctl)) \<Longrightarrow> slave_ref x = Some s \<Longrightarrow>
   (s = ''capture'' \<or> s = ''snoopCapture'') \<and> s \<in> set (defined_stages (fst (capture_part cap ctl)))"
  by (cases cap)
     (auto simp: capture_defs defined_stages_Cons split: if_splits)

lemma capture_defined:
  "set (defined_stages (fst (capture_part cap ctl)))
     \<subseteq> {''capture'', ''matchCapture'', ''snoopCapture''}"
  by (cases cap)
     (auto simp: capture_defs defined_stages_Cons split: if_splits)

lemma capture_order:
  "cap = None \<or> captureInterface ctl \<noteq> 2 \<Longrightarrow>
   slave_order_ok [] (Header # fst (capture_part cap ctl))"
  by (cases cap)
     (auto simp: capture_defs defined_stages_Cons split: if_splits)

lemma common_slaves:
  "x \<in> set (common_setup r p rn) \<Longrightarrow> slave_ref x = None"
  by (auto simp: common_setup_def split: if_splits)

lemma common_defined: "defined_stages (common_setup r p rn) = [p]"
  by (simp add: common_setup_def defined_stages_Cons)

lemma playback_slaves:
  "x \<in> set (snd (playback_switch ctl ''playback'' cp f ch rt)) \<Longrightarrow> slave_ref x = Some s \<Longrightarrow>
   s = ''null'' \<or> s = ''playback''
   \<or> s \<in> set (defined_stages (snd (playback_switch ctl ''playback'' cp f ch rt)))"
  by (cases cp)
     (auto simp: playback_defs defined_stages_Cons split: if_splits)

lemma playback_defined:
  "set (defined_stages (snd (playback_switch ctl p cp f ch rt)))
     \<subseteq> {''stream'', ''streamvol'', ''match'', ''mix''}"
  by (cases cp)
     (auto simp: playback_defs defined_stages_Cons split: if_splits)

lemma playback_order:
  "playbackInterface ctl \<noteq> 2 \<Longrightarrow>
   slave_order_ok [] (common_setup r ''playback'' rn
                      @ snd (playback_switch ctl ''playback'' cp f ch rt))"
  by (cases cp)
     (auto simp: common_setup_def playback_defs defined_stages_Cons split: if_splits)

lemma items_slaves_resolved:
  assumes "asoundrc_items r cap ctl = Some (w, its)"
  shows "slaves_resolved its"
proof -
  let ?C = "fst (capture_part cap ctl)"
  let ?P = "snd (playback_switch ctl ''playback'' (snd (capture_part cap ctl))
                  (format_or_default r) (channels_or_default r) (rate_or_default r))"
  from asoundrc_items_shape [OF assms] obtain rn where
    its: "its = [Header] @ ?C @ common_setup r ''playback'' rn @ ?P"
    by blast
  have "s = ''null'' \<or> s \<in> set (defined_stages its)"
    if x: "x \<in> set its" and s: "slave_ref x = Some s" for x s
  proof -
    from x its consider "x = Header" | "x \<in> set ?C"
      | "x \<in> set (common_setup r ''playback'' rn)" | "x \<in> set ?P"
      by auto
    then show ?thesis
    proof cases
      case 1
      then show ?thesis using s by simp
    next
      case 2
      then show ?thesis using capture_slaves [OF 2 s] its by (simp add: defined_stages_Cons)
    next
      case 3
      then show ?thesis using common_slaves [OF 3] s by simp
    next
      case 4
      then show ?thesis using playback_slaves [OF 4 s] its
        by (auto simp: common_defined defined_stages_Cons)
    qed
  qed
  then show ?thesis unfolding slaves_resolved_iff by blast
qed

lemma items_slave_order:
  assumes "asoundrc_items r cap ctl = Some (w, its)"
    and "playbackInterface ctl \<noteq> 2"
    and "cap = None \<or> captureInterface ctl \<noteq> 2"
  shows "slave_order_ok [] its"
proof -
  let ?C = "fst (capture_part cap ctl)"
  let ?P = "snd (playback_switch ctl ''playback'' (snd (capture_part cap ctl))
                  (format_or_default r) (channels_or_default r) (rate_or_default r))"
  from asoundrc_items_shape [OF assms(1)] obtain rn where
    its: "its = (Header # ?C) @ (common_setup r ''playback'' rn @ ?P)"
    by auto
  have later: "set (defined_stages (common_setup r ''playback'' rn @ ?P))
                 \<subseteq> {''playback'', ''stream'', ''streamvol'', ''match'', ''mix''}"
    using playback_defined [of ctl "''playback''" "snd (capture_part cap ctl)"
        "format_or_default r" "channels_or_default r" "rate_or_default r"]
    by (auto simp: common_defined)
  have apart: "s \<notin> set (defined_stages (common_setup r ''playback'' rn @ ?P))"
    if "x \<in> set (Header # ?C)" and "slave_ref x = Some s" for x s
  proof -
    from that have "x \<in> set ?C" by auto
    from capture_slaves [OF this that(2)] have "s = ''capture'' \<or> s = ''snoopCapture''" by simp
    then show ?thesis using later by auto
  qed
  show ?thesis
    unfolding its
    by (rule slave_order_ok_append [OF capture_order [OF assms(3)] playback_order [OF assms(2)]])
       (use apart in blast)
qed

text \<open>
  C5, as the code has it. In every artifact written, the slave of every block is a stage
  declared in the same artifact or the sink \<^verbatim>\<open>null\<close>; the declaration may follow the
  block that names it. When neither the playback side is in dmix mode nor a selected
  capture side in dsnoop mode, no slave names a stage declared only later.
\<close>

theorem C5_slaves_resolve:
  "print_asoundrc sel cap ctl e = Returned (Written w) f \<Longrightarrow>
   \<exists>r its. sel = Some r \<and> asoundrc_items r cap ctl = Some (w, its) \<and> f = Some (render_all its)
     \<and> slaves_resolved its
     \<and> (playbackInterface ctl \<noteq> 2 \<and> (cap = None \<or> captureInterface ctl \<noteq> 2)
          \<longrightarrow> slave_order_ok [] its)"
  by (drule print_asoundrc_written) (auto intro: items_slaves_resolved items_slave_order)

text \<open>
  In dmix mode the adapter \<^verbatim>\<open>match\<close> is printed before the mixer \<^verbatim>\<open>mix\<close> it has as
  its slave: the slave is declared only later.
\<close>

theorem C5_forward_slave_counterexample:
  "print_asoundrc (Some scenario_row) None (scenario_controls\<lparr>playbackInterface := 2\<rparr>) fresh_home
     = Returned (Written [])
         (Some (render_all
            [Header, Hw_pcm ''playback'' ''playback'' 0 0, Rate_converter ''speexrate_medium'',
             Ctl_default 0, playback_dmix_note,
             Plug ''match'' ''mix'', Dmix ''mix'' ''playback'' ''S16_LE'' 2 48000,
             Default_alias ''match'']))
   \<and> \<not> slave_order_ok []
         [Header, Hw_pcm ''playback'' ''playback'' 0 0, Rate_converter ''speexrate_medium'',
          Ctl_default 0, playback_dmix_note,
          Plug ''match'' ''mix'', Dmix ''mix'' ''playback'' ''S16_LE'' 2 48000,
          Default_alias ''match'']"
  using print_asoundrc_run [OF scenario_free fresh_home_opens scenario_dmix_items]
  by (simp add: playback_dmix_note_def defined_stages_def List.map_filter_def)

theorem C5_slaves_resolve_witness:
  "print_asoundrc (Some scenario_row) None
      (scenario_controls\<lparr>playbackInterface := 2, streamSwitch := True, streamDefault := True\<rparr>)
      fresh_home
     = Returned (Written [])
         (Some (render_all
            [Header, Hw_pcm ''playback'' ''playback'' 0 0, Rate_converter ''speexrate_medium'',
             Ctl_default 0, playback_dmix_note, Stream_note ''stream'',
             Softvol ''streamvol'' ''mix'',
             File_pcm ''stream'' ''raw'' ''streamvol'' ASCONFIG_STREAM_COMMAND,
             Plug ''match'' ''mix'', Dmix ''mix'' ''playback'' ''S16_LE'' 2 48000,
             Default_alias ''match'']))
   \<and> slaves_resolved
         [Header, Hw_pcm ''playback'' ''playback'' 0 0, Rate_converter ''speexrate_medium'',
          Ctl_default 0, playback_dmix_note, Stream_note ''stream'',
          Softvol ''streamvol'' ''mix'',
          File_pcm ''stream'' ''raw'' ''streamvol'' ASCONFIG_STREAM_COMMAND,
          Plug ''match'' ''mix'', Dmix ''mix'' ''playback'' ''S16_LE'' 2 48000,
          Default_alias ''match'']
   \<and> playbackInterface scenario_controls \<noteq> 2
   \<and> print_asoundrc (Some scenario_row) None scenario_controls fresh_home
     = Returned (Written [])
         (Some (render_all
            [Header, Hw_pcm ''playback'' ''playback'' 0 0, Rate_converter ''speexrate_medium'',
             Ctl_default 0, playback_hw_note, Default_alias ''playback'']))
   \<and> slave_order_ok []
         [Header, Hw_pcm ''playback'' ''playback'' 0 0, Rate_converter ''speexrate_medium'',
          Ctl_default 0, playback_hw_note, Default_alias ''playback'']"
proof -
  have dmix: "print_asoundrc (Some scenario_row) None
      (scenario_controls\<lparr>playbackInterface := 2, streamSwitch := True, streamDefault := True\<rparr>)
      fresh_home
     = Returned (Written [])
         (Some (render_all
            [Header, Hw_pcm ''playback'' ''playback'' 0 0, Rate_converter ''speexrate_medium'',
             Ctl_default 0, playback_dmix_note, Stream_note ''stream'',
             Softvol ''streamvol'' ''mix'',
             File_pcm ''stream'' ''raw'' ''streamvol'' ASCONFIG_STREAM_COMMAND,
             Plug ''match'' ''mix'', Dmix ''mix'' ''playback'' ''S16_LE'' 2 48000,
             Default_alias ''match'']))"
    by (rule print_asoundrc_run [OF scenario_free fresh_home_opens scenario_dmix_tap_items])
  have mode: "playbackInterface scenario_controls \<noteq> 2"
    by (simp add: scenario_controls_def)
  show ?thesis
    using C5_slaves_resolve [OF dmix] C5_slaves_resolve [OF scenario_direct_run]
      dmix scenario_direct_run mode
    by (simp add: scenario_dmix_tap_items scenario_direct_items)
qed

subsection \<open>The default selector\<close>

lemma capture_default_refs: "default_refs (fst (capture_part cap ctl)) = []"
  by (cases cap) (auto simp: capture_defs default_refs_Cons split: if_splits)

lemma common_default_refs: "default_refs (common_setup r p rn) = []"
  by (simp add: common_setup_def default_refs_Cons)

lemma add_default_single: "\<exists>d. add_default p cp = [d] \<and> default_playback d = Some p"
  by (cases cp) (simp_all add: add_default_def)

lemma add_default_defined: "defined_stages (add_default p cp) = []"
  by (cases cp) (simp_all add: add_default_def defined_stages_Cons)

lemma playback_switch_last:
  "playbackInterface ctl = 0 \<or> playbackInterface ctl = 1 \<or> playbackInterface ctl = 2 \<Longrightarrow>
   \<exists>pre p. snd (playback_switch ctl ''playback'' cp f ch rt) = pre @ add_default p cp
     \<and> default_refs pre = [] \<and> (p = ''playback'' \<or> p \<in> set (defined_stages pre))"
proof (elim disjE)
  assume m: "playbackInterface ctl = 0"
  let ?tap = "stream_tap (streamSwitch ctl) (streamDefault ctl) ''playback''"
  have "snd (playback_switch ctl ''playback'' cp f ch rt)
          = ([playback_hw_note] @ fst ?tap) @ add_default (snd ?tap) cp"
    using m by (simp add: playback_switch_def split: prod.splits)
  moreover have "default_refs ([playback_hw_note] @ fst ?tap) = []"
    by (simp add: stream_tap_def add_streamOut_def note_defs default_refs_Cons)
  moreover have "snd ?tap = ''playback'' \<or> snd ?tap \<in> set (defined_stages ([playback_hw_note] @ fst ?tap))"
    by (simp add: stream_tap_def add_streamOut_def note_defs defined_stages_Cons)
  ultimately show ?thesis by blast
next
  assume m: "playbackInterface ctl = 1"
  let ?tap = "stream_tap (streamSwitch ctl) (streamDefault ctl) ''playback''"
  have "snd (playback_switch ctl ''playback'' cp f ch rt)
          = ([playback_plug_note] @ fst ?tap @ add_plug ''match'' (snd ?tap)) @ add_default ''match'' cp"
    using m by (simp add: playback_switch_def split: prod.splits)
  moreover have "default_refs ([playback_plug_note] @ fst ?tap @ add_plug ''match'' (snd ?tap)) = []"
    by (simp add: stream_tap_def add_streamOut_def add_plug_def note_defs default_refs_Cons)
  moreover have "''match'' \<in> set (defined_stages ([playback_plug_note] @ fst ?tap @ add_plug ''match'' (snd ?tap)))"
    by (simp add: add_plug_def defined_stages_Cons)
  ultimately show ?thesis by blast
next
  assume m: "playbackInterface ctl = 2"
  let ?pre = "[playback_dmix_note]
         @ (if streamSwitch ctl then
              add_dmixStream ''streamvol'' ''mix'' ''stream''
              @ add_streamOut ''stream'' ASCONFIG_STREAM_INPUT_FORMAT ''streamvol''
                  ASCONFIG_STREAM_COMMAND
            else [])
         @ add_plug ''match'' ''mix''
         @ add_dmix ''mix'' ''playback'' f ch rt"
  have "snd (playback_switch ctl ''playback'' cp f ch rt) = ?pre @ add_default ''match'' cp"
    using m by (simp add: playback_switch_def)
  moreover have "default_refs ?pre = []"
    by (simp add: add_dmixStream_def add_streamOut_def add_plug_def add_dmix_def note_defs
        default_refs_Cons)
  moreover have "''match'' \<in> set (defined_stages ?pre)"
    by (simp add: add_plug_def defined_stages_Cons)
  ultimately show ?thesis by blast
qed

text \<open>
  C7. In the modes hw, plug and dmix the artifact written ends with the one default
  selector it has, and the playback reference of that selector names a stage declared by
  a block before it.
\<close>

theorem C7_default_reference_resolves:
  assumes mode: "playbackInterface ctl = 0 \<or> playbackInterface ctl = 1 \<or> playbackInterface ctl = 2"
    and run: "print_asoundrc sel cap ctl e = Returned (Written w) f"
  shows "\<exists>r its pre d p. sel = Some r \<and> asoundrc_items r cap ctl = Some (w, its)
           \<and> f = Some (render_all its) \<and> its = pre @ [d]
           \<and> default_refs pre = [] \<and> default_playback d = Some p
           \<and> p \<in> set (defined_stages pre)"
proof -
  from print_asoundrc_written [OF run] obtain r its where
    sel: "sel = Some r" and items: "asoundrc_items r cap ctl = Some (w, its)"
    and f: "f = Some (render_all its)"
    by blast
  let ?C = "fst (capture_part cap ctl)"
  let ?cp = "snd (capture_part cap ctl)"
  from asoundrc_items_shape [OF items] obtain rn where
    its: "its = [Header] @ ?C @ common_setup r ''playback'' rn
            @ snd (playback_switch ctl ''playback'' ?cp
                 (format_or_default r) (channels_or_default r) (rate_or_default r))"
    by blast
  from playback_switch_last [OF mode] obtain pre p where
    pb: "snd (playback_switch ctl ''playback'' ?cp
           (format_or_default r) (channels_or_default r) (rate_or_default r))
         = pre @ add_default p ?cp"
    and pre: "default_refs pre = []"
    and p: "p = ''playback'' \<or> p \<in> set (defined_stages pre)"
    by blast
  from add_default_single obtain d where
    d: "add_default p ?cp = [d]" and dp: "default_playback d = Some p"
    by blast
  let ?pre = "[Header] @ ?C @ common_setup r ''playback'' rn @ pre"
  have "its = ?pre @ [d]"
    using its pb d by simp
  moreover have "default_refs ?pre = []"
    using pre by (simp add: capture_default_refs common_default_refs default_refs_Cons)
  moreover have "p \<in> set (defined_stages ?pre)"
    using p by (auto simp: common_defined defined_stages_Cons)
  ultimately show ?thesis
    using sel items f dp by blast
qed

theorem C7_default_reference_witness:
  "playbackInterface scenario_controls = 0
   \<and> print_asoundrc (Some scenario_row) None scenario_controls fresh_home
     = Returned (Written [])
         (Some (render_all
            ([Header, Hw_pcm ''playback'' ''playback'' 0 0, Rate_converter ''speexrate_medium'',
              Ctl_default 0, playback_hw_note] @ [Default_alias ''playback''])))
   \<and> (\<exists>pre d p.
         [Header, Hw_pcm ''playback'' ''playback'' 0 0, Rate_converter ''speexrate_medium'',
          Ctl_default 0, playback_hw_note, Default_alias ''playback''] = pre @ [d]
         \<and> default_refs pre = [] \<and> default_playback d = Some p
         \<and> p \<in> set (defined_stages pre))"
proof -
  have mode: "playbackInterface scenario_controls = 0"
    by (simp add: scenario_controls_def)
  then have "playbackInterface scenario_controls = 0 \<or> playbackInterface scenario_controls = 1
      \<or> playbackInterface scenario_controls = 2"
    by simp
  from C7_default_reference_resolves [OF this scenario_direct_run]
  show ?thesis
    using mode scenario_direct_run by (simp add: scenario_direct_items)
qed

subsection \<open>The dmix mode with the stream tap\<close>

lemma common_stage_blocks:
  "stage_blocks (common_setup r p rn) = [Hw_pcm ''playback'' p (card r) (device r)]"
  by (simp add: common_setup_def stage_blocks_Cons)

lemma dmix_tap_stage_blocks:
  "playbackInterface ctl = 2 \<Longrightarrow> streamSwitch ctl \<Longrightarrow>
   stage_blocks (snd (playback_switch ctl p cp f ch rt)) =
     [Softvol ''streamvol'' ''mix'',
      File_pcm ''stream'' ASCONFIG_STREAM_INPUT_FORMAT ''streamvol'' ASCONFIG_STREAM_COMMAND,
      Plug ''match'' ''mix'', Dmix ''mix'' p f ch rt]"
  by (cases cp) (simp_all add: playback_defs stage_blocks_Cons)

lemma dmix_default_refs:
  "playbackInterface ctl = 2 \<Longrightarrow> default_refs (snd (playback_switch ctl p cp f ch rt)) = [''match'']"
  by (cases cp) (simp_all add: playback_defs default_refs_Cons)

text \<open>
  C6, as the code has it. In dmix mode with the stream tap enabled, whatever the
  stream-is-default flag, the blocks that declare a stage are, after those of the capture
  side and in this order: the hardware stage \<^verbatim>\<open>playback\<close> on the selected card and
  device, the volume tap (softvol) \<^verbatim>\<open>streamvol\<close> with the mixer as its slave, the file
  sink \<^verbatim>\<open>stream\<close> with the volume tap as its slave, the adapter (plug) \<^verbatim>\<open>match\<close> with
  the mixer as its slave, the mixer (dmix) \<^verbatim>\<open>mix\<close> with the hardware stage as its slave
  and the negotiated format, channels and rate. The playback reference of the default
  selector is the adapter \<^verbatim>\<open>match\<close>.
\<close>

theorem C6_dmix_tap_stages:
  assumes mode: "playbackInterface ctl = 2" and tap: "streamSwitch ctl"
    and run: "print_asoundrc sel cap ctl e = Returned (Written w) f"
  shows "\<exists>r its. sel = Some r \<and> asoundrc_items r cap ctl = Some (w, its)
           \<and> f = Some (render_all its)
           \<and> stage_blocks its =
               stage_blocks (fst (capture_part cap ctl))
               @ [Hw_pcm ''playback'' ''playback'' (card r) (device r),
                  Softvol ''streamvol'' ''mix'',
                  File_pcm ''stream'' ASCONFIG_STREAM_INPUT_FORMAT ''streamvol''
                    ASCONFIG_STREAM_COMMAND,
                  Plug ''match'' ''mix'',
                  Dmix ''mix'' ''playback'' (format_or_default r) (channels_or_default r)
                    (rate_or_default r)]
           \<and> default_refs its = [''match'']"
proof -
  from print_asoundrc_written [OF run] obtain r its where
    sel: "sel = Some r" and items: "asoundrc_items r cap ctl = Some (w, its)"
    and f: "f = Some (render_all its)"
    by blast
  from asoundrc_items_shape [OF items] obtain rn where
    its: "its = [Header] @ fst (capture_part cap ctl) @ common_setup r ''playback'' rn
            @ snd (playback_switch ctl ''playback'' (snd (capture_part cap ctl))
                 (format_or_default r) (channels_or_default r) (rate_or_default r))"
    by blast
  have "stage_blocks its =
          stage_blocks (fst (capture_part cap ctl))
          @ [Hw_pcm ''playback'' ''playback'' (card r) (device r),
             Softvol ''streamvol'' ''mix'',
             File_pcm ''stream'' ASCONFIG_STREAM_INPUT_FORMAT ''streamvol''
               ASCONFIG_STREAM_COMMAND,
             Plug ''match'' ''mix'',
             Dmix ''mix'' ''playback'' (format_or_default r) (channels_or_default r)
               (rate_or_default r)]"
    unfolding its
    by (simp add: stage_blocks_Cons common_stage_blocks dmix_tap_stage_blocks [OF mode tap])
  moreover have "default_refs its = [''match'']"
    unfolding its
    by (simp add: default_refs_Cons capture_default_refs common_default_refs
        dmix_default_refs [OF mode])
  ultimately show ?thesis using sel items f by blast
qed

text \<open>
  With the tap enabled and marked default the default selector still names \<^verbatim>\<open>match\<close>,
  not the file sink \<^verbatim>\<open>stream\<close>.
\<close>

theorem C6_default_reference_counterexample:
  "playbackInterface
      (scenario_controls\<lparr>playbackInterface := 2, streamSwitch := True, streamDefault := True\<rparr>) = 2
   \<and> streamSwitch
      (scenario_controls\<lparr>playbackInterface := 2, streamSwitch := True, streamDefault := True\<rparr>)
   \<and> streamDefault
      (scenario_controls\<lparr>playbackInterface := 2, streamSwitch := True, streamDefault := True\<rparr>)
   \<and> print_asoundrc (Some scenario_row) None
      (scenario_controls\<lparr>playbackInterface := 2, streamSwitch := True, streamDefault := True\<rparr>)
      fresh_home
     = Returned (Written [])
         (Some (render_all
            [Header, Hw_pcm ''playback'' ''playback'' 0 0, Rate_converter ''speexrate_medium'',
             Ctl_default 0, playback_dmix_note, Stream_note ''stream'',
             Softvol ''streamvol'' ''mix'',
             File_pcm ''stream'' ''raw'' ''streamvol'' ASCONFIG_STREAM_COMMAND,
             Plug ''match'' ''mix'', Dmix ''mix'' ''playback'' ''S16_LE'' 2 48000,
             Default_alias ''match'']))
   \<and> default_refs
        [Header, Hw_pcm ''playback'' ''playback'' 0 0, Rate_converter ''speexrate_medium'',
         Ctl_default 0, playback_dmix_note, Stream_note ''stream'',
         Softvol ''streamvol'' ''mix'',
         File_pcm ''stream'' ''raw'' ''streamvol'' ASCONFIG_STREAM_COMMAND,
         Plug ''match'' ''mix'', Dmix ''mix'' ''playback'' ''S16_LE'' 2 48000,
         Default_alias ''match''] = [''match'']
   \<and> ''match'' \<noteq> ''stream''"
  using print_asoundrc_run [OF scenario_free fresh_home_opens scenario_dmix_tap_items]
  by (simp add: default_refs_Cons playback_dmix_note_def)

theorem C6_dmix_tap_stages_witness:
  "playbackInterface
      (scenario_controls\<lparr>playbackInterface := 2, streamSwitch := True, streamDefault := True\<rparr>) = 2
   \<and> streamSwitch
      (scenario_controls\<lparr>playbackInterface := 2, streamSwitch := True, streamDefault := True\<rparr>)
   \<and> print_asoundrc (Some scenario_row) None
      (scenario_controls\<lparr>playbackInterface := 2, streamSwitch := True, streamDefault := True\<rparr>)
      fresh_home
     = Returned (Written [])
         (Some (render_all
            [Header, Hw_pcm ''playback'' ''playback'' 0 0, Rate_converter ''speexrate_medium'',
             Ctl_default 0, playback_dmix_note, Stream_note ''stream'',
             Softvol ''streamvol'' ''mix'',
             File_pcm ''stream'' ''raw'' ''streamvol'' ASCONFIG_STREAM_COMMAND,
             Plug ''match'' ''mix'', Dmix ''mix'' ''playback'' ''S16_LE'' 2 48000,
             Default_alias ''match'']))
   \<and> stage_blocks
        [Header, Hw_pcm ''playback'' ''playback'' 0 0, Rate_converter ''speexrate_medium'',
         Ctl_default 0, playback_dmix_note, Stream_note ''stream'',
         Softvol ''streamvol'' ''mix'',
         File_pcm ''stream'' ''raw'' ''streamvol'' ASCONFIG_STREAM_COMMAND,
         Plug ''match'' ''mix'', Dmix ''mix'' ''playback'' ''S16_LE'' 2 48000,
         Default_alias ''match'']
       = [Hw_pcm ''playback'' ''playback'' 0 0, Softvol ''streamvol'' ''mix'',
          File_pcm ''stream'' ''raw'' ''streamvol'' ASCONFIG_STREAM_COMMAND,
          Plug ''match'' ''mix'', Dmix ''mix'' ''playback'' ''S16_LE'' 2 48000]
   \<and> default_refs
        [Header, Hw_pcm ''playback'' ''playback'' 0 0, Rate_converter ''speexrate_medium'',
         Ctl_default 0, playback_dmix_note, Stream_note ''stream'',
         Softvol ''streamvol'' ''mix'',
         File_pcm ''stream'' ''raw'' ''streamvol'' ASCONFIG_STREAM_COMMAND,
         Plug ''match'' ''mix'', Dmix ''mix'' ''playback'' ''S16_LE'' 2 48000,
         Default_alias ''match''] = [''match'']"
proof -
  let ?ctl = "scenario_controls\<lparr>playbackInterface := 2, streamSwitch := True, streamDefault := True\<rparr>"
  have mode: "playbackInterface ?ctl = 2" and tap: "streamSwitch ?ctl"
    by simp_all
  note run = print_asoundrc_run [OF scenario_free fresh_home_opens scenario_dmix_tap_items]
  from C6_dmix_tap_stages [OF mode tap run]
  show ?thesis
    using mode tap run
    by (simp add: scenario_dmix_tap_items capture_part_def)
       (simp add: scenario_row_def default_defs)
qed

subsection \<open>The forced-parameter block\<close>









subsection \<open>An unknown playback interface\<close>

text \<open>
  C1, as the code has it. With a playback interface index other than 0, 1 and 2, a free
  playback record, no declined overwrite, a file that opens and a resampler of the table,
  the run logs the warning and still writes and closes the file: the header, the capture
  side, the common setup with the hardware stage \<^verbatim>\<open>playback\<close>, and a default selector
  whose playback reference is \<^verbatim>\<open>playback\<close>. No tap, adapter or mixer stage is declared
  on the playback side.
\<close>

theorem C1_unknown_mode_completes:
  assumes mode: "playbackInterface ctl \<noteq> 0" "playbackInterface ctl \<noteq> 1" "playbackInterface ctl \<noteq> 2"
    and free: "in_use r = None"
    and go: "\<not> (asoundrc_file e \<noteq> None \<and> dialog_response e = GTK_RESPONSE_NO)"
    and opens: "fopen_ok e"
    and rn: "resampler_name (resampler ctl) = Some rn"
  shows "print_asoundrc (Some r) cap ctl e =
           Returned (Written [''print_asoundrc(): Unknown interface type''])
             (Some (render_all
                ([Header] @ fst (capture_part cap ctl) @ common_setup r ''playback'' rn
                 @ add_default ''playback'' (snd (capture_part cap ctl)))))
         \<and> defined_stages
              ([Header] @ fst (capture_part cap ctl) @ common_setup r ''playback'' rn
               @ add_default ''playback'' (snd (capture_part cap ctl)))
            = defined_stages (fst (capture_part cap ctl)) @ [''playback'']"
proof -
  have "asoundrc_items r cap ctl =
          Some ([''print_asoundrc(): Unknown interface type''],
                [Header] @ fst (capture_part cap ctl) @ common_setup r ''playback'' rn
                 @ add_default ''playback'' (snd (capture_part cap ctl)))"
    using mode rn by (simp add: asoundrc_items_def playback_switch_def split: prod.splits)
  from print_asoundrc_run [OF free go opens this] show ?thesis
    by (simp add: defined_stages_Cons common_defined add_default_defined)
qed

text \<open>With the index 3 the file is written and declares the stage \<^verbatim>\<open>playback\<close>.\<close>

theorem C1_unknown_mode_counterexample:
  "playbackInterface (scenario_controls\<lparr>playbackInterface := 3\<rparr>) \<noteq> 0
   \<and> playbackInterface (scenario_controls\<lparr>playbackInterface := 3\<rparr>) \<noteq> 1
   \<and> playbackInterface (scenario_controls\<lparr>playbackInterface := 3\<rparr>) \<noteq> 2
   \<and> print_asoundrc (Some scenario_row) None (scenario_controls\<lparr>playbackInterface := 3\<rparr>)
        fresh_home
     = Returned (Written [''print_asoundrc(): Unknown interface type''])
         (Some (render_all
            [Header, Hw_pcm ''playback'' ''playback'' 0 0, Rate_converter ''speexrate_medium'',
             Ctl_default 0, Default_alias ''playback'']))
   \<and> defined_stages
        [Header, Hw_pcm ''playback'' ''playback'' 0 0, Rate_converter ''speexrate_medium'',
         Ctl_default 0, Default_alias ''playback''] = [''playback'']"
proof -
  have "asoundrc_items scenario_row None (scenario_controls\<lparr>playbackInterface := 3\<rparr>) =
     Some ([''print_asoundrc(): Unknown interface type''],
           [Header, Hw_pcm ''playback'' ''playback'' 0 0, Rate_converter ''speexrate_medium'',
            Ctl_default 0, Default_alias ''playback''])"
    by (simp add: run_defs scenario_row_def scenario_controls_def)
  from print_asoundrc_run [OF scenario_free fresh_home_opens this]
  show ?thesis by (simp add: scenario_controls_def defined_stages_Cons)
qed

theorem C1_unknown_mode_witness:
  "playbackInterface (scenario_controls\<lparr>playbackInterface := - 1\<rparr>) \<noteq> 0
   \<and> playbackInterface (scenario_controls\<lparr>playbackInterface := - 1\<rparr>) \<noteq> 1
   \<and> playbackInterface (scenario_controls\<lparr>playbackInterface := - 1\<rparr>) \<noteq> 2
   \<and> in_use scenario_row = None
   \<and> \<not> (asoundrc_file (prior_file GTK_RESPONSE_YES) \<noteq> None
          \<and> dialog_response (prior_file GTK_RESPONSE_YES) = GTK_RESPONSE_NO)
   \<and> fopen_ok (prior_file GTK_RESPONSE_YES)
   \<and> resampler_name (resampler (scenario_controls\<lparr>playbackInterface := - 1\<rparr>))
        = Some ''speexrate_medium''
   \<and> print_asoundrc (Some scenario_row) None (scenario_controls\<lparr>playbackInterface := - 1\<rparr>)
        (prior_file GTK_RESPONSE_YES)
     = Returned (Written [''print_asoundrc(): Unknown interface type''])
         (Some (render_all
            [Header, Hw_pcm ''playback'' ''playback'' 0 0, Rate_converter ''speexrate_medium'',
             Ctl_default 0, Default_alias ''playback'']))"
proof -
  let ?ctl = "scenario_controls\<lparr>playbackInterface := - 1\<rparr>"
  let ?e = "prior_file GTK_RESPONSE_YES"
  have mode: "playbackInterface ?ctl \<noteq> 0" "playbackInterface ?ctl \<noteq> 1" "playbackInterface ?ctl \<noteq> 2"
    by simp_all
  have go: "\<not> (asoundrc_file ?e \<noteq> None \<and> dialog_response ?e = GTK_RESPONSE_NO)"
    by (simp add: prior_file_def GTK_RESPONSE_YES_def GTK_RESPONSE_NO_def)
  have opens: "fopen_ok ?e"
    by (simp add: prior_file_def)
  have rn: "resampler_name (resampler ?ctl) = Some ''speexrate_medium''"
    by (simp add: resampler_name_def resamplers_def scenario_controls_def)
  from C1_unknown_mode_completes [OF mode scenario_free go opens rn, of None]
  show ?thesis
    using mode go opens rn scenario_free
    by (simp add: capture_part_def common_setup_def add_default_def scenario_row_def)
qed

subsection \<open>The stream-is-default flag in dmix mode\<close>

lemma capture_part_streamDefault:
  "capture_part captureSelection (ctl\<lparr>streamDefault := a\<rparr>) = capture_part captureSelection ctl"
  by (cases captureSelection) (simp_all add: capture_part_def)

lemma playback_switch_dmix_streamDefault:
  "playbackInterface ctl = 2 \<Longrightarrow>
   playback_switch (ctl\<lparr>streamDefault := a\<rparr>) p c f ch rt
     = playback_switch (ctl\<lparr>streamDefault := b\<rparr>) p c f ch rt"
  by (simp add: playback_switch_def)

lemma asoundrc_items_dmix_streamDefault:
  "playbackInterface ctl = 2 \<Longrightarrow>
   asoundrc_items r captureSelection (ctl\<lparr>streamDefault := a\<rparr>)
     = asoundrc_items r captureSelection (ctl\<lparr>streamDefault := b\<rparr>)"
  by (simp add: asoundrc_items_def capture_part_streamDefault
        playback_switch_dmix_streamDefault [of ctl a _ _ _ _ _ b]
      split: prod.split option.split)

text \<open>
  C10. In dmix mode two runs that differ in the stream-is-default flag only end the same
  way and leave the same file, byte for byte.
\<close>

theorem C10_dmix_ignores_streamDefault:
  "playbackInterface ctl = 2 \<Longrightarrow>
   print_asoundrc playbackSelection captureSelection (ctl\<lparr>streamDefault := a\<rparr>) e
     = print_asoundrc playbackSelection captureSelection (ctl\<lparr>streamDefault := b\<rparr>) e"
  by (cases playbackSelection)
     (simp_all add: print_asoundrc_def asoundrc_items_dmix_streamDefault [of ctl _ _ a b])

theorem C10_dmix_ignores_streamDefault_witness:
  "playbackInterface (scenario_controls\<lparr>playbackInterface := 2, streamSwitch := True\<rparr>) = 2
   \<and> print_asoundrc (Some scenario_row) None
        (scenario_controls\<lparr>playbackInterface := 2, streamSwitch := True, streamDefault := True\<rparr>)
        fresh_home
     = print_asoundrc (Some scenario_row) None
        (scenario_controls\<lparr>playbackInterface := 2, streamSwitch := True, streamDefault := False\<rparr>)
        fresh_home
   \<and> print_asoundrc (Some scenario_row) None
        (scenario_controls\<lparr>playbackInterface := 2, streamSwitch := True, streamDefault := False\<rparr>)
        fresh_home
     = Returned (Written [])
         (Some (render_all
            [Header, Hw_pcm ''playback'' ''playback'' 0 0, Rate_converter ''speexrate_medium'',
             Ctl_default 0, playback_dmix_note, Stream_note ''stream'',
             Softvol ''streamvol'' ''mix'',
             File_pcm ''stream'' ''raw'' ''streamvol'' ASCONFIG_STREAM_COMMAND,
             Plug ''match'' ''mix'', Dmix ''mix'' ''playback'' ''S16_LE'' 2 48000,
             Default_alias ''match'']))"
  using C10_dmix_ignores_streamDefault
    [of "scenario_controls\<lparr>playbackInterface := 2, streamSwitch := True\<rparr>"
        "Some scenario_row" None True fresh_home False]
    print_asoundrc_run [OF scenario_free fresh_home_opens scenario_dmix_tap_other_items]
  by simp

subsection \<open>Negotiation of the defaults\<close>

text \<open>
  C2, as the code has it. For a device whose parameter query succeeds the scanner adds
  one free record and sets its three defaults independently of one another. The default
  rate is the minimum rate when the call for a rate near 48000 fails, and otherwise the
  rate that call wrote back, whatever it is. The default
  format is S16_LE when the hardware accepts it and otherwise the first reported format
  (when one is reported). The default channel count is 2 when the hardware accepts it and
  otherwise the minimum channel count.
\<close>

theorem C2_negotiation_fallbacks:
  assumes "pcm_info_err d = 0" and "pcm_open_err d = 0" and "hw_params_any_err d = 0"
  shows "\<exists>x. scan_device c d = [x] \<and> in_use x = None
           \<and> default_rate x =
               (if fst (set_rate_near (pars d) 48000) \<noteq> 0 then rate_min (pars d)
                else snd (set_rate_near (pars d) 48000))
           \<and> default_format x =
               Some (if set_format (pars d) ''S16_LE'' \<noteq> 0
                     then first_format (sample_formats (pars d)) else ''S16_LE'')
           \<and> (sample_formats (pars d) \<noteq> []
                \<longrightarrow> first_format (sample_formats (pars d)) = hd (sample_formats (pars d)))
           \<and> default_channels x =
               (if set_channels (pars d) 2 \<noteq> 0 then channels_min (pars d) else 2)"
  using assms
  by (cases "sample_formats (pars d)")
     (auto simp: scan_device_def inserted_row_def negotiate_rate_def negotiate_format_def
        negotiate_channels_def first_format_def ASCONFIG_DEFAULT_RATE_def
        ASCONFIG_DEFAULT_FORMAT_NAME_def ASCONFIG_DEFAULT_CHANNELS_def split: prod.splits)

text \<open>
  A device with the rates 8000 to 44100 that refuses S16_LE: the nearest-rate call
  succeeds and settles on 44100, and that is the default rate of the record, neither the
  preferred 48000 nor the minimum rate 8000.
\<close>

theorem C2_rate_not_retained_counterexample:
  "pcm_info_err ranged_device = 0 \<and> pcm_open_err ranged_device = 0
   \<and> hw_params_any_err ranged_device = 0
   \<and> rate_min (pars ranged_device) = 8000 \<and> rate_max (pars ranged_device) = 44100
   \<and> set_rate_near (pars ranged_device) 48000 = (0, 44100)
   \<and> set_format (pars ranged_device) ''S16_LE'' \<noteq> 0
   \<and> set_channels (pars ranged_device) 2 = 0
   \<and> map default_rate (scancards [codec_card]) = [44100]
   \<and> map default_format (scancards [codec_card]) = [Some ''S24_LE'']
   \<and> map default_channels (scancards [codec_card]) = [2]"
  by (simp add: scancards_def scan_card_def scan_device_def inserted_row_def codec_card_def
      ranged_device_def ranged_params_def negotiate_rate_def negotiate_format_def
      negotiate_channels_def first_format_def ASCONFIG_DEFAULT_RATE_def
      ASCONFIG_DEFAULT_FORMAT_NAME_def ASCONFIG_DEFAULT_CHANNELS_def)

theorem C2_negotiation_witness:
  "pcm_info_err (ranged_device\<lparr>pars := ranged_params\<lparr>set_rate_near := (\<lambda>wanted. (- 22, wanted))\<rparr>\<rparr>) = 0
   \<and> pcm_open_err (ranged_device\<lparr>pars := ranged_params\<lparr>set_rate_near := (\<lambda>wanted. (- 22, wanted))\<rparr>\<rparr>) = 0
   \<and> hw_params_any_err (ranged_device\<lparr>pars := ranged_params\<lparr>set_rate_near := (\<lambda>wanted. (- 22, wanted))\<rparr>\<rparr>) = 0
   \<and> sample_formats (ranged_params\<lparr>set_rate_near := (\<lambda>wanted. (- 22, wanted))\<rparr>) \<noteq> []
   \<and> map default_rate
        (scan_device codec_card
           (ranged_device\<lparr>pars := ranged_params\<lparr>set_rate_near := (\<lambda>wanted. (- 22, wanted))\<rparr>\<rparr>))
       = [8000]
   \<and> map default_format
        (scan_device codec_card
           (ranged_device\<lparr>pars := ranged_params\<lparr>set_rate_near := (\<lambda>wanted. (- 22, wanted))\<rparr>\<rparr>))
       = [Some ''S24_LE'']
   \<and> map default_channels
        (scan_device codec_card
           (ranged_device\<lparr>pars := ranged_params\<lparr>set_rate_near := (\<lambda>wanted. (- 22, wanted))\<rparr>\<rparr>))
       = [2]"
proof -
  let ?d = "ranged_device\<lparr>pars := ranged_params\<lparr>set_rate_near := (\<lambda>wanted. (- 22, wanted))\<rparr>\<rparr>"
  have ok: "pcm_info_err ?d = 0" "pcm_open_err ?d = 0" "hw_params_any_err ?d = 0"
    by (simp_all add: ranged_device_def)
  have fmts: "sample_formats (ranged_params\<lparr>set_rate_near := (\<lambda>wanted. (- 22, wanted))\<rparr>) \<noteq> []"
    by (simp add: ranged_params_def)
  from C2_negotiation_fallbacks [OF ok, of codec_card]
  show ?thesis
    using ok fmts by (auto simp: ranged_params_def)
qed

subsection \<open>Overwriting a file that exists\<close>

text \<open>
  C8. With a file at the destination the answer No leaves it as it was. The generator
  compares the answer with No only: when the dialog is dismissed without an answer
  (\<^verbatim>\<open>GTK_RESPONSE_DELETE_EVENT\<close>), the run goes on and overwrites the file, though no
  affirmative answer was given.
\<close>

theorem C8_dismissed_dialog_overwrites:
  "print_asoundrc (Some scenario_row) None scenario_controls (prior_file GTK_RESPONSE_NO)
     = Returned Overwrite_declined (Some ''# written by hand'')
   \<and> GTK_RESPONSE_DELETE_EVENT \<noteq> GTK_RESPONSE_YES
   \<and> print_asoundrc (Some scenario_row) None scenario_controls
        (prior_file GTK_RESPONSE_DELETE_EVENT)
     = Returned (Written [])
         (Some (render_all
            [Header, Hw_pcm ''playback'' ''playback'' 0 0, Rate_converter ''speexrate_medium'',
             Ctl_default 0, playback_hw_note, Default_alias ''playback'']))
   \<and> render_all
        [Header, Hw_pcm ''playback'' ''playback'' 0 0, Rate_converter ''speexrate_medium'',
         Ctl_default 0, playback_hw_note, Default_alias ''playback'']
       \<noteq> ''# written by hand''"
proof -
  have declined: "print_asoundrc (Some scenario_row) None scenario_controls (prior_file GTK_RESPONSE_NO)
     = Returned Overwrite_declined (Some ''# written by hand'')"
    by (simp add: print_asoundrc_def prior_file_def show_actionbox_def scenario_row_def)
  have go: "\<not> (asoundrc_file (prior_file GTK_RESPONSE_DELETE_EVENT) \<noteq> None
              \<and> dialog_response (prior_file GTK_RESPONSE_DELETE_EVENT) = GTK_RESPONSE_NO)"
    by (simp add: prior_file_def GTK_RESPONSE_DELETE_EVENT_def GTK_RESPONSE_NO_def)
  have opens: "fopen_ok (prior_file GTK_RESPONSE_DELETE_EVENT)"
    by (simp add: prior_file_def)
  have differs: "render_all
        [Header, Hw_pcm ''playback'' ''playback'' 0 0, Rate_converter ''speexrate_medium'',
         Ctl_default 0, playback_hw_note, Default_alias ''playback'']
       \<noteq> ''# written by hand''"
    by (simp add: render_all_def text_lines_def)
  show ?thesis
    using declined print_asoundrc_run [OF scenario_free go opens scenario_direct_items] differs
    by (simp add: GTK_RESPONSE_DELETE_EVENT_def GTK_RESPONSE_YES_def)
qed

end
